theory Spec2Isabelle
  imports Complex_Main "HOL-Library.Monad_Syntax"
begin

section \<open>Data model of x/staking/simulation/operations.go\<close>

text \<open>
  The file holds five operation generators. Each is a Go closure over an account keeper
  \<open>ak\<close> and a staking keeper \<open>k\<close> that takes a random source \<open>r\<close>, the application,
  a context, the simulation accounts and a chain id, and returns
  \<open>(OperationMsg, []FutureOperation, error)\<close>.

  Addresses (\<open>sdk.AccAddress\<close>, \<open>sdk.ValAddress\<close>) are byte strings; the casts between
  them keep the bytes and \<open>Equals\<close> compares them. A decimal (\<open>sdk.Dec\<close>) is modelled by
  its value, a rational number; an \<open>sdk.Int\<close> is an unbounded integer; \<open>sdk.Coins\<close> is
  a list of coins, a coin being a denomination and an amount.
\<close>

type_synonym address = string
type_synonym dec = rat
type_synonym coin = "string \<times> int"
type_synonym coins = "coin list"
type_synonym key = string
type_synonym timestamp = nat

text \<open>\<open>simulation.Account\<close>: the keys are interface values, \<open>None\<close> is Go's \<open>nil\<close>.\<close>

record Account =
  Address :: address
  PubKey :: "key option"
  PrivKey :: "key option"

text \<open>The zero value of \<open>simulation.Account\<close> (\<open>var simAccount simulation.Account\<close>).\<close>

definition zeroAccount :: Account where
  "zeroAccount = \<lparr>Address = [], PubKey = None, PrivKey = None\<rparr>"

text \<open>
  \<open>types.Validator\<close>, with the fields the generators read: the operator address, the
  bonded tokens, the issued shares and \<open>Commission.MaxRate\<close>.
\<close>

record Validator =
  OperatorAddress :: address
  Tokens :: int
  DelegatorShares :: dec
  MaxRate :: dec

record Delegation =
  DelegatorAddress :: address
  ValidatorAddress :: address
  Shares :: dec

text \<open>
  An account of the account keeper (\<open>exported.Account\<close>): \<open>GetCoins\<close>,
  \<open>SpendableCoins(blockTime)\<close>, \<open>GetAccountNumber\<close> and \<open>GetSequence\<close>.
\<close>

record AuthAccount =
  GetCoins :: coins
  SpendableCoins :: "timestamp \<Rightarrow> coins"
  GetAccountNumber :: nat
  GetSequence :: nat

datatype error =
    MaxTooSmall
  | ValidatorNotFound address
  | DelegationAddrNotInAccs address
  | DeliverFailed string
  | External string

datatype Description = NewDescription string string string string string

datatype CommissionRates = NewCommissionRates dec dec dec

datatype Msg =
    NewMsgCreateValidator address "key option" coin Description CommissionRates int
  | NewMsgEditValidator address Description "dec option" "int option"
  | NewMsgDelegate address address coin
  | NewMsgUndelegate address address coin
  | NewMsgBeginRedelegate address address address coin

text \<open>The arguments of \<open>helpers.GenTx\<close>, kept as the transaction it builds.\<close>

record Tx =
  Msgs :: "Msg list"
  Fee :: coins
  ChainID :: string
  AccNums :: "nat list"
  Seqs :: "nat list"
  Signer :: "key option"

definition GenTx :: "Msg list \<Rightarrow> coins \<Rightarrow> string \<Rightarrow> nat list \<Rightarrow> nat list \<Rightarrow> key option \<Rightarrow> Tx" where
  "GenTx msgs fees chainID accnums seqs priv =
     \<lparr>Msgs = msgs, Fee = fees, ChainID = chainID, AccNums = accnums, Seqs = seqs, Signer = priv\<rparr>"

text \<open>The result of \<open>app.Deliver\<close>: \<open>res.IsOK()\<close> and \<open>res.Log\<close>.\<close>

record Result =
  IsOK :: bool
  Log :: string

text \<open>
  \<open>simulation.OperationMsg\<close> is built by two functions of the package \<open>x/simulation\<close>,
  \<open>NoOpMsg(route)\<close> and \<open>NewOperationMsg(msg, ok, comment)\<close>; a value is kept as the
  call that built it.
\<close>

datatype OperationMsg =
    NoOpMsg string
  | NewOperationMsg Msg bool string

type_synonym FutureOperation = unit
type_synonym op_return = "OperationMsg \<times> FutureOperation list \<times> error option"

text \<open>\<open>types.ModuleName\<close>, the name of the staking module.\<close>

definition ModuleName :: string where
  "ModuleName = ''staking''"

text \<open>
  The three shapes every \<open>return\<close> of the file has: \<open>NoOpMsg, nil, nil\<close> (a skip),
  \<open>NoOpMsg, nil, err\<close> (an error) and \<open>NewOperationMsg(msg, true, ""), nil, nil\<close>
  (a success).
\<close>

definition NoOp :: op_return where
  "NoOp = (NoOpMsg ModuleName, [], None)"

definition Error :: "error \<Rightarrow> op_return" where
  "Error err = (NoOpMsg ModuleName, [], Some err)"

definition Success :: "Msg \<Rightarrow> op_return" where
  "Success msg = (NewOperationMsg msg True [], [], None)"

section \<open>The collaborators\<close>

text \<open>
  The staking keeper, the account keeper, the application and the context are read
  through the queries the generators call. The keeper and the context are a snapshot:
  no generator writes to them before it returns.
\<close>

record Keeper =
  GetValidator :: "address \<Rightarrow> Validator option"
  GetAllValidators :: "Validator list"
  BondDenom :: string
  GetValidatorDelegations :: "address \<Rightarrow> Delegation list"
  HasMaxUnbondingDelegationEntries :: "address \<Rightarrow> address \<Rightarrow> bool"
  HasReceivingRedelegation :: "address \<Rightarrow> address \<Rightarrow> bool"
  HasMaxRedelegationEntries :: "address \<Rightarrow> address \<Rightarrow> address \<Rightarrow> bool"

text \<open>\<open>ak.GetAccount\<close> returns an interface value: \<open>None\<close> is \<open>nil\<close>.\<close>

record AccountKeeper =
  GetAccount :: "address \<Rightarrow> AuthAccount option"

record BaseApp =
  Deliver :: "Tx \<Rightarrow> Result"

record Context =
  BlockTime :: timestamp

text \<open>
  The random source \<open>*rand.Rand\<close> is the sequence of raw values it will produce; every
  draw takes the next one (an exhausted sequence keeps producing 0). \<open>r.Intn(n)\<close> is
  Go's \<open>math/rand\<close>: a value in \<open>[0, n)\<close>, and a panic when \<open>n \<le> 0\<close>. A panic is the
  result \<open>None\<close> throughout.
\<close>

type_synonym rand = "nat list"

fun draw :: "rand \<Rightarrow> nat \<times> rand" where
  "draw [] = (0, [])"
| "draw (d # ds) = (d, ds)"

definition Intn :: "rand \<Rightarrow> nat \<Rightarrow> (nat \<times> rand) option" where
  "Intn r n = (if n = 0 then None else (case draw r of (d, r') \<Rightarrow> Some (d mod n, r')))"

text \<open>
  Functions of the packages \<open>x/staking/types\<close> and \<open>x/simulation\<close> that the generators
  call and whose code is in other files. They are parameters: every theorem below holds
  for each choice of them. The random ones take the random source and return it
  advanced. \<open>ValidateNewRate\<close> is \<open>val.Commission.ValidateNewRate\<close>, \<open>None\<close> being a nil
  error. \<open>k.GetParams(ctx).BondDenom\<close> and \<open>k.BondDenom(ctx)\<close> read the same parameter,
  the keeper's \<open>BondDenom\<close>; \<open>ctx.BlockHeader().Time\<close> and \<open>ctx.BlockTime()\<close> read the
  same time, the context's \<open>BlockTime\<close>.
\<close>

record Lib =
  TokensFromShares :: "Validator \<Rightarrow> dec \<Rightarrow> dec"
  SharesFromTokens :: "Validator \<Rightarrow> int \<Rightarrow> error + dec"
  InvalidExRate :: "Validator \<Rightarrow> bool"
  ValidateNewRate :: "Validator \<Rightarrow> dec \<Rightarrow> timestamp \<Rightarrow> error option"
  RandomFees :: "rand \<Rightarrow> coins \<Rightarrow> (error + coins) \<times> rand"
  RandStringOfLength :: "rand \<Rightarrow> nat \<Rightarrow> string \<times> rand"
  RandIntBetween :: "rand \<Rightarrow> int \<Rightarrow> int \<Rightarrow> int \<times> rand"
  RandomDecAmount :: "rand \<Rightarrow> dec \<Rightarrow> dec \<times> rand"

record Env =
  env_ak :: AccountKeeper
  env_k :: Keeper
  env_app :: BaseApp
  env_ctx :: Context
  env_lib :: Lib

section \<open>Helpers of other packages\<close>

text \<open>
  Modelled from the spec: \<open>sdk.Dec.TruncateInt\<close>, whose code is outside
  \<open>operations.go\<close>. The spec says shares are converted to tokens "truncating toward zero".
\<close>

definition TruncateInt :: "dec \<Rightarrow> int" where
  "TruncateInt d = (if 0 \<le> d then \<lfloor>d\<rfloor> else - \<lfloor>- d\<rfloor>)"

text \<open>
  Modelled from the spec: \<open>sdk.NewDecWithPrec\<close>, whose code is outside \<open>operations.go\<close>.
  The spec reads \<open>NewDecWithPrec(n, 2)\<close> as a percentage with "two-decimal precision":
  \<open>n / 10^prec\<close>.
\<close>

definition NewDecWithPrec :: "int \<Rightarrow> nat \<Rightarrow> dec" where
  "NewDecWithPrec n prec = of_int n / 10 ^ prec"

text \<open>\<open>sdk.NewCoin\<close> pairs a denomination with an amount.\<close>

definition NewCoin :: "string \<Rightarrow> int \<Rightarrow> coin" where
  "NewCoin denom amount = (denom, amount)"

text \<open>
  Modelled from the spec: \<open>sdk.Coins.AmountOf\<close>, whose code is outside \<open>operations.go\<close>.
  The spec calls it "an account's current balance in a given denomination"; a
  denomination the coins do not hold has balance 0.
\<close>

definition AmountOf :: "coins \<Rightarrow> string \<Rightarrow> int" where
  "AmountOf cs denom = (case map_of cs denom of None \<Rightarrow> 0 | Some a \<Rightarrow> a)"

text \<open>
  Modelled from the spec: \<open>sdk.Coins.SafeSub\<close>, whose code is outside \<open>operations.go\<close>.
  The spec says "available spendable balance minus the reserved" amount, with a flag
  for a deficit: every denomination of either side gets the difference of its two
  amounts, and the flag says that one of the differences is negative.
\<close>

definition SafeSub :: "coins \<Rightarrow> coins \<Rightarrow> coins \<times> bool" where
  "SafeSub coinsA coinsB =
     (let diff = map (\<lambda>d. (d, AmountOf coinsA d - AmountOf coinsB d))
                   (remdups (map fst coinsA @ map fst coinsB))
      in (filter (\<lambda>c. snd c \<noteq> 0) diff, \<exists>c \<in> set diff. snd c < 0))"

text \<open>
  Modelled from the spec: \<open>simulation.RandomAcc\<close>, whose code is outside
  \<open>operations.go\<close>. The spec calls it "uniform account sampling": one index into the
  accounts is drawn, so with no account at all the draw \<open>Intn(0)\<close> panics.
\<close>

definition RandomAcc :: "rand \<Rightarrow> Account list \<Rightarrow> (Account \<times> rand) option" where
  "RandomAcc r accs = do {
     (idx, r') \<leftarrow> Intn r (length accs);
     Some (accs ! idx, r')
   }"

text \<open>
  Modelled from the spec: \<open>keeper.RandomValidator\<close>, whose code is outside
  \<open>operations.go\<close>. The spec says it "samples a random existing validator" out of "all
  validators"; its second result \<open>ok\<close> is false (here: no validator is returned) when
  none exists.
\<close>

definition RandomValidator :: "rand \<Rightarrow> Keeper \<Rightarrow> Validator option \<times> rand" where
  "RandomValidator r k =
     (let vals = GetAllValidators k in
      if length vals = 0 then (None, r)
      else (case draw r of (d, r') \<Rightarrow> (Some (vals ! (d mod length vals)), r')))"

text \<open>
  Modelled from the spec: \<open>simulation.RandPositiveInt\<close>, whose code is outside
  \<open>operations.go\<close>. The spec calls it a "random positive integer bounded above" that
  fails on a "malformed bound": an error when the bound is below 1, else a value from 1
  to the bound.
\<close>

definition RandPositiveInt :: "rand \<Rightarrow> int \<Rightarrow> (error + int) \<times> rand" where
  "RandPositiveInt r mx =
     (if mx < 1 then (Inl MaxTooSmall, r)
      else (case draw r of (d, r') \<Rightarrow> (Inr (1 + int d mod mx), r')))"

text \<open>
  Modelled from the spec: \<open>simulation.FindAccount\<close>, whose code is outside
  \<open>operations.go\<close>. The spec calls it a "reverse-lookup [of] a keypair record by chain
  address"; its second result \<open>found\<close> is false (here: \<open>None\<close>) when no account has the
  address.
\<close>

definition FindAccount :: "Account list \<Rightarrow> address \<Rightarrow> Account option" where
  "FindAccount accs addr = find (\<lambda>acc. Address acc = addr) accs"

text \<open>
  The loop of lines 266-272 and 365-371: \<open>simAccount\<close> starts as the zero value and
  becomes the first account whose address equals \<open>delAddr\<close>.
\<close>

fun simAccountLoop :: "Account list \<Rightarrow> address \<Rightarrow> Account" where
  "simAccountLoop [] delAddr = zeroAccount"
| "simAccountLoop (simAcc # accs) delAddr =
     (if Address simAcc = delAddr then simAcc else simAccountLoop accs delAddr)"

text \<open>
  The end of every generator: the transaction is delivered, a failed delivery is the
  error carrying its log, anything else the success carrying the message.
\<close>

definition deliverTx :: "Env \<Rightarrow> Msg \<Rightarrow> Tx \<Rightarrow> op_return" where
  "deliverTx e msg tx =
     (let res = Deliver (env_app e) tx in
      if \<not> IsOK res then Error (DeliverFailed (Log res)) else Success msg)"

section \<open>The generators\<close>

text \<open>
  Lines 57-63 and 129-135: five strings of length 10, drawn one after the other.
\<close>

definition randDescription :: "Lib \<Rightarrow> rand \<Rightarrow> Description \<times> rand" where
  "randDescription lib r =
     (case RandStringOfLength lib r 10 of (s1, r1) \<Rightarrow>
      case RandStringOfLength lib r1 10 of (s2, r2) \<Rightarrow>
      case RandStringOfLength lib r2 10 of (s3, r3) \<Rightarrow>
      case RandStringOfLength lib r3 10 of (s4, r4) \<Rightarrow>
      case RandStringOfLength lib r4 10 of (s5, r5) \<Rightarrow>
        (NewDescription s1 s2 s3 s4 s5, r5))"

text \<open>
  Lines 48-55 and 194-201: \<open>fees\<close> starts as nil; it is drawn from what is left of the
  spendable coins only when the subtraction has no negative amount.
\<close>

definition feesAfter :: "Lib \<Rightarrow> rand \<Rightarrow> coins \<Rightarrow> coin \<Rightarrow> (error + coins) \<times> rand" where
  "feesAfter lib r coins reserved =
     (case SafeSub coins [reserved] of
        (coins', hasNeg) \<Rightarrow> if \<not> hasNeg then RandomFees lib r coins' else (Inr [], r))"

definition SimulateMsgCreateValidator :: "Env \<Rightarrow> rand \<Rightarrow> Account list \<Rightarrow> string \<Rightarrow> op_return option" where
  "SimulateMsgCreateValidator e r accs chainID = do {
     (simAccount, r1) \<leftarrow> RandomAcc r accs;
     let address = Address simAccount;
     if GetValidator (env_k e) address \<noteq> None then Some NoOp
     else do {
       let denom = BondDenom (env_k e);
       holder \<leftarrow> GetAccount (env_ak e) (Address simAccount);
       let amount = AmountOf (GetCoins holder) denom;
       if \<not> 0 < amount then Some NoOp
       else (case RandPositiveInt r1 amount of
           (Inl err, r2) \<Rightarrow> Some (Error err)
         | (Inr amount', r2) \<Rightarrow> do {
             let selfDelegation = NewCoin denom amount';
             account \<leftarrow> GetAccount (env_ak e) (Address simAccount);
             let coins = SpendableCoins account (BlockTime (env_ctx e));
             (case feesAfter (env_lib e) r2 coins selfDelegation of
                (Inl err, r3) \<Rightarrow> Some (Error err)
              | (Inr fees, r3) \<Rightarrow>
                 (case randDescription (env_lib e) r3 of (description, r4) \<Rightarrow>
                  case RandIntBetween (env_lib e) r4 0 100 of (n, r5) \<Rightarrow> do {
                    let maxCommission = NewDecWithPrec n 2;
                    (case RandomDecAmount (env_lib e) r5 maxCommission of (rate, r6) \<Rightarrow>
                     case RandomDecAmount (env_lib e) r6 maxCommission of (maxChangeRate, r7) \<Rightarrow> do {
                       let commission = NewCommissionRates rate maxCommission maxChangeRate;
                       let msg = NewMsgCreateValidator address (PubKey simAccount) selfDelegation
                                   description commission 1;
                       Some (deliverTx e msg
                         (GenTx [msg] fees chainID [GetAccountNumber account]
                            [GetSequence account] (PrivKey simAccount)))
                     })
                  }))
           })
     }
   }"

definition SimulateMsgEditValidator :: "Env \<Rightarrow> rand \<Rightarrow> Account list \<Rightarrow> string \<Rightarrow> op_return option" where
  "SimulateMsgEditValidator e r accs chainID =
     (if length (GetAllValidators (env_k e)) = 0 then Some NoOp
      else (case RandomValidator r (env_k e) of
          (None, r1) \<Rightarrow> Some NoOp
        | (Some val, r1) \<Rightarrow> do {
           let address = OperatorAddress val;
           (case RandomDecAmount (env_lib e) r1 (MaxRate val) of (newCommissionRate, r2) \<Rightarrow>
              if ValidateNewRate (env_lib e) val newCommissionRate (BlockTime (env_ctx e)) \<noteq> None
              then Some NoOp
              else (case FindAccount accs (OperatorAddress val) of
                  None \<Rightarrow> Some (Error (ValidatorNotFound (OperatorAddress val)))
                | Some simAccount \<Rightarrow> do {
                    account \<leftarrow> GetAccount (env_ak e) (Address simAccount);
                    (case RandomFees (env_lib e) r2 (SpendableCoins account (BlockTime (env_ctx e))) of
                       (Inl err, r3) \<Rightarrow> Some (Error err)
                     | (Inr fees, r3) \<Rightarrow>
                        (case randDescription (env_lib e) r3 of (description, r4) \<Rightarrow> do {
                           let msg = NewMsgEditValidator address description (Some newCommissionRate) None;
                           Some (deliverTx e msg
                             (GenTx [msg] fees chainID [GetAccountNumber account]
                                [GetSequence account] (PrivKey simAccount)))
                         }))
                  }))
         }))"

definition SimulateMsgDelegate :: "Env \<Rightarrow> rand \<Rightarrow> Account list \<Rightarrow> string \<Rightarrow> op_return option" where
  "SimulateMsgDelegate e r accs chainID =
     (let denom = BondDenom (env_k e) in
      if length (GetAllValidators (env_k e)) = 0 then Some NoOp
      else do {
        (simAccount, r1) \<leftarrow> RandomAcc r accs;
        (case RandomValidator r1 (env_k e) of
           (None, r2) \<Rightarrow> Some NoOp
         | (Some val, r2) \<Rightarrow>
             if InvalidExRate (env_lib e) val then Some NoOp
             else do {
               holder \<leftarrow> GetAccount (env_ak e) (Address simAccount);
               let amount = AmountOf (GetCoins holder) denom;
               if \<not> 0 < amount then Some NoOp
               else (case RandPositiveInt r2 amount of
                   (Inl err, r3) \<Rightarrow> Some (Error err)
                 | (Inr amount', r3) \<Rightarrow> do {
                     let bondAmt = NewCoin denom amount';
                     account \<leftarrow> GetAccount (env_ak e) (Address simAccount);
                     let coins = SpendableCoins account (BlockTime (env_ctx e));
                     (case feesAfter (env_lib e) r3 coins bondAmt of
                        (Inl err, r4) \<Rightarrow> Some (Error err)
                      | (Inr fees, r4) \<Rightarrow> do {
                          let msg = NewMsgDelegate (Address simAccount) (OperatorAddress val) bondAmt;
                          Some (deliverTx e msg
                            (GenTx [msg] fees chainID [GetAccountNumber account]
                               [GetSequence account] (PrivKey simAccount)))
                        })
                   })
             })
      })"

definition SimulateMsgUndelegate :: "Env \<Rightarrow> rand \<Rightarrow> Account list \<Rightarrow> string \<Rightarrow> op_return option" where
  "SimulateMsgUndelegate e r accs chainID =
     (case RandomValidator r (env_k e) of
        (None, r1) \<Rightarrow> Some NoOp
      | (Some validator, r1) \<Rightarrow> do {
          let valAddr = OperatorAddress validator;
          let delegations = GetValidatorDelegations (env_k e) (OperatorAddress validator);
          (i, r2) \<leftarrow> Intn r1 (length delegations);
          let delegation = delegations ! i;
          let delAddr = DelegatorAddress delegation;
          if HasMaxUnbondingDelegationEntries (env_k e) delAddr valAddr then Some NoOp
          else do {
            let totalBond = TruncateInt (TokensFromShares (env_lib e) validator (Shares delegation));
            if \<not> 0 < totalBond then Some NoOp
            else (case RandPositiveInt r2 totalBond of
                (Inl err, r3) \<Rightarrow> Some (Error err)
              | (Inr unbondAmt, r3) \<Rightarrow>
                  if unbondAmt = 0 then Some NoOp
                  else do {
                    let msg = NewMsgUndelegate delAddr valAddr (NewCoin (BondDenom (env_k e)) unbondAmt);
                    let simAccount = simAccountLoop accs delAddr;
                    if PrivKey simAccount = None then Some (Error (DelegationAddrNotInAccs delAddr))
                    else do {
                      account \<leftarrow> GetAccount (env_ak e) delAddr;
                      (case RandomFees (env_lib e) r3 (SpendableCoins account (BlockTime (env_ctx e))) of
                         (Inl err, r4) \<Rightarrow> Some (Error err)
                       | (Inr fees, r4) \<Rightarrow>
                           Some (deliverTx e msg
                             (GenTx [msg] fees chainID [GetAccountNumber account]
                                [GetSequence account] (PrivKey simAccount))))
                    }
                  })
          }
        })"

definition SimulateMsgBeginRedelegate :: "Env \<Rightarrow> rand \<Rightarrow> Account list \<Rightarrow> string \<Rightarrow> op_return option" where
  "SimulateMsgBeginRedelegate e r accs chainID =
     (case RandomValidator r (env_k e) of
        (None, r1) \<Rightarrow> Some NoOp
      | (Some srcVal, r1) \<Rightarrow> do {
          let srcAddr = OperatorAddress srcVal;
          let delegations = GetValidatorDelegations (env_k e) srcAddr;
          (i, r2) \<leftarrow> Intn r1 (length delegations);
          let delegation = delegations ! i;
          let delAddr = DelegatorAddress delegation;
          if HasReceivingRedelegation (env_k e) delAddr srcAddr then Some NoOp
          else (case RandomValidator r2 (env_k e) of
              (None, r3) \<Rightarrow> Some NoOp
            | (Some destVal, r3) \<Rightarrow> do {
                let destAddr = OperatorAddress destVal;
                if srcAddr = destAddr \<or> InvalidExRate (env_lib e) destVal \<or>
                   HasMaxRedelegationEntries (env_k e) delAddr srcAddr destAddr
                then Some NoOp
                else do {
                  let totalBond = TruncateInt (TokensFromShares (env_lib e) srcVal (Shares delegation));
                  if \<not> 0 < totalBond then Some NoOp
                  else (case RandPositiveInt r3 totalBond of
                      (Inl err, r4) \<Rightarrow> Some (Error err)
                    | (Inr redAmt, r4) \<Rightarrow>
                        if redAmt = 0 then Some NoOp
                        else (case SharesFromTokens (env_lib e) srcVal redAmt of
                            Inl err \<Rightarrow> Some (Error err)
                          | Inr shares \<Rightarrow>
                              if TruncateInt (TokensFromShares (env_lib e) srcVal shares) = 0
                              then Some NoOp
                              else do {
                                let simAccount = simAccountLoop accs delAddr;
                                if PrivKey simAccount = None
                                then Some (Error (DelegationAddrNotInAccs delAddr))
                                else do {
                                  account \<leftarrow> GetAccount (env_ak e) delAddr;
                                  (case RandomFees (env_lib e) r4
                                          (SpendableCoins account (BlockTime (env_ctx e))) of
                                     (Inl err, r5) \<Rightarrow> Some (Error err)
                                   | (Inr fees, r5) \<Rightarrow> do {
                                       let msg = NewMsgBeginRedelegate delAddr srcAddr destAddr
                                                   (NewCoin (BondDenom (env_k e)) redAmt);
                                       Some (deliverTx e msg
                                         (GenTx [msg] fees chainID [GetAccountNumber account]
                                            [GetSequence account] (PrivKey simAccount)))
                                     })
                                }
                              }))
                }
              })
        })"

section \<open>A concrete chain state\<close>

text \<open>
  The inputs of the examples below. Decimals have 18 fractional digits: a quotient of
  two decimals is rounded to the nearest such decimal (ties to the even one), a
  quotient of a decimal by an integer is cut off after the 18th digit.
\<close>

definition decRound :: "rat \<Rightarrow> dec" where
  "decRound x =
     (let y = x * 10 ^ 18; q = \<lfloor>y\<rfloor>; f = y - of_int q in
      of_int (if f < 1 / 2 \<or> (f = 1 / 2 \<and> even q) then q else q + 1) / 10 ^ 18)"

definition decTruncate :: "rat \<Rightarrow> dec" where
  "decTruncate x = of_int (TruncateInt (x * 10 ^ 18)) / 10 ^ 18"

definition libMain :: Lib where
  "libMain = \<lparr>
     TokensFromShares = (\<lambda>v shares. decRound (shares * of_int (Tokens v) / DelegatorShares v)),
     SharesFromTokens = (\<lambda>v amt.
        if Tokens v = 0 then Inl (External ''insufficient shares'')
        else Inr (decTruncate (DelegatorShares v * of_int amt / of_int (Tokens v)))),
     InvalidExRate = (\<lambda>v. Tokens v = 0 \<and> 0 < DelegatorShares v),
     ValidateNewRate = (\<lambda>v rate t.
        if t < 86400 then Some (External ''commission cannot be changed more than once in 24h'')
        else None),
     RandomFees = (\<lambda>r cs.
        case cs of [] \<Rightarrow> (Inr [], r)
        | c # _ \<Rightarrow> (case RandPositiveInt r (snd c) of
                      (Inl err, r') \<Rightarrow> (Inl err, r')
                    | (Inr amt, r') \<Rightarrow> (Inr [(fst c, amt)], r'))),
     RandStringOfLength = (\<lambda>r n. (replicate n CHR ''a'', r)),
     RandIntBetween = (\<lambda>r lo hi. (lo, r)),
     RandomDecAmount = (\<lambda>r mx. (mx, r)) \<rparr>"

text \<open>
  Four validators. The first has lost a little to slashing (17 tokens for 18 shares),
  the second stands at one token per share, the third has no delegation left, the
  fourth has lost all its tokens.
\<close>

definition valA :: Validator where
  "valA = \<lparr>OperatorAddress = ''alice'', Tokens = 17, DelegatorShares = 18, MaxRate = 1 / 2\<rparr>"

definition valB :: Validator where
  "valB = \<lparr>OperatorAddress = ''bob'', Tokens = 1000000, DelegatorShares = 1000000, MaxRate = 1 / 5\<rparr>"

definition valC :: Validator where
  "valC = \<lparr>OperatorAddress = ''zoe'', Tokens = 0, DelegatorShares = 0, MaxRate = 1 / 5\<rparr>"

definition valD :: Validator where
  "valD = \<lparr>OperatorAddress = ''dan'', Tokens = 0, DelegatorShares = 10, MaxRate = 1 / 5\<rparr>"

definition keeperMain :: Keeper where
  "keeperMain = \<lparr>
     GetValidator = (\<lambda>a. find (\<lambda>v. OperatorAddress v = a) [valA, valB, valC, valD]),
     GetAllValidators = [valA, valB, valC, valD],
     BondDenom = ''stake'',
     GetValidatorDelegations = (\<lambda>a.
        if a = ''alice'' then
          [\<lparr>DelegatorAddress = ''alice'', ValidatorAddress = ''alice'', Shares = 18\<rparr>]
        else if a = ''bob'' then
          [\<lparr>DelegatorAddress = ''bob'', ValidatorAddress = ''bob'', Shares = 500000\<rparr>,
           \<lparr>DelegatorAddress = ''dave'', ValidatorAddress = ''bob'', Shares = 300000\<rparr>,
           \<lparr>DelegatorAddress = ''erin'', ValidatorAddress = ''bob'', Shares = 200000\<rparr>]
        else if a = ''dan'' then
          [\<lparr>DelegatorAddress = ''carol'', ValidatorAddress = ''dan'', Shares = 10\<rparr>]
        else []),
     HasMaxUnbondingDelegationEntries = (\<lambda>d v. d = ''dave''),
     HasReceivingRedelegation = (\<lambda>d v. False),
     HasMaxRedelegationEntries = (\<lambda>d s t. False) \<rparr>"

text \<open>
  The simulation accounts: \<open>dave\<close>, \<open>erin\<close>, \<open>zoe\<close> and \<open>dan\<close> are not among them. Half of
  \<open>carol\<close>'s coins and more are still vesting.
\<close>

definition accsMain :: "Account list" where
  "accsMain =
     [\<lparr>Address = ''alice'', PubKey = Some ''pubA'', PrivKey = Some ''privA''\<rparr>,
      \<lparr>Address = ''bob'', PubKey = Some ''pubB'', PrivKey = Some ''privB''\<rparr>,
      \<lparr>Address = ''carol'', PubKey = Some ''pubC'', PrivKey = Some ''privC''\<rparr>]"

definition akMain :: AccountKeeper where
  "akMain = \<lparr>
     GetAccount = (\<lambda>a.
        if a = ''alice'' then
          Some \<lparr>GetCoins = [(''stake'', 100)], SpendableCoins = (\<lambda>t. [(''stake'', 100)]),
                GetAccountNumber = 0, GetSequence = 4\<rparr>
        else if a = ''bob'' then
          Some \<lparr>GetCoins = [(''stake'', 50)], SpendableCoins = (\<lambda>t. [(''stake'', 50)]),
                GetAccountNumber = 1, GetSequence = 2\<rparr>
        else if a = ''carol'' then
          Some \<lparr>GetCoins = [(''stake'', 10)], SpendableCoins = (\<lambda>t. [(''stake'', 3)]),
                GetAccountNumber = 2, GetSequence = 0\<rparr>
        else None) \<rparr>"

definition envMain :: Env where
  "envMain = \<lparr>
     env_ak = akMain,
     env_k = keeperMain,
     env_app = \<lparr>Deliver = (\<lambda>tx. \<lparr>IsOK = True, Log = []\<rparr>)\<rparr>,
     env_ctx = \<lparr>BlockTime = 100000\<rparr>,
     env_lib = libMain \<rparr>"

text \<open>The same state one minute after genesis, and a state with no validator yet.\<close>

definition envEarly :: Env where
  "envEarly = envMain \<lparr>env_ctx := \<lparr>BlockTime = 60\<rparr>\<rparr>"

definition envEmpty :: Env where
  "envEmpty = envMain \<lparr>env_k := keeperMain \<lparr>GetValidator := (\<lambda>a. None), GetAllValidators := [],
     GetValidatorDelegations := (\<lambda>a. [])\<rparr>\<rparr>"

text \<open>
  A variant of the state in which \<open>erin\<close>, who is not a simulation account, also holds
  the delegations to the first and the fourth validator, a redelegation to \<open>dave\<close> is
  still arriving, and the redelegations toward the third validator are at their maximum.
\<close>

definition envAlt :: Env where
  "envAlt = envMain \<lparr>env_k := keeperMain \<lparr>
     GetValidatorDelegations := (\<lambda>a.
        if a = ''alice'' then
          [\<lparr>DelegatorAddress = ''erin'', ValidatorAddress = ''alice'', Shares = 18\<rparr>]
        else if a = ''dan'' then
          [\<lparr>DelegatorAddress = ''erin'', ValidatorAddress = ''dan'', Shares = 10\<rparr>]
        else GetValidatorDelegations keeperMain a),
     HasReceivingRedelegation := (\<lambda>d v. d = ''dave''),
     HasMaxRedelegationEntries := (\<lambda>d s t. t = ''zoe'')\<rparr>\<rparr>"

text \<open>
  A variant of the state whose application asks for a fee: it rejects a transaction
  that carries none.
\<close>

definition envMinFee :: Env where
  "envMinFee = envMain \<lparr>env_app := \<lparr>Deliver = (\<lambda>tx.
     if Fee tx = [] then \<lparr>IsOK = False, Log = ''insufficient fees''\<rparr>
     else \<lparr>IsOK = True, Log = []\<rparr>)\<rparr>\<rparr>"

section \<open>Simplification sets and helper lemmas\<close>

lemmas gen_defs = SimulateMsgUndelegate_def SimulateMsgBeginRedelegate_def
  SimulateMsgCreateValidator_def SimulateMsgEditValidator_def SimulateMsgDelegate_def

lemmas fix_defs = envMain_def envEarly_def envEmpty_def envAlt_def envMinFee_def akMain_def
  accsMain_def keeperMain_def valA_def valB_def valC_def valD_def libMain_def decRound_def
  decTruncate_def

lemmas help_defs = RandomValidator_def RandomAcc_def Intn_def RandPositiveInt_def FindAccount_def
  TruncateInt_def NewCoin_def AmountOf_def SafeSub_def feesAfter_def randDescription_def
  deliverTx_def GenTx_def NewDecWithPrec_def

lemma NoOp_neq_Success: "NoOp \<noteq> Success m"
  by (simp add: NoOp_def Success_def)

lemma Error_neq_Success: "Error err \<noteq> Success m"
  by (simp add: Error_def Success_def)

lemma NoOp_neq_Error: "NoOp \<noteq> Error err"
  by (simp add: NoOp_def Error_def)

lemma Success_inject: "Success m = Success m' \<longleftrightarrow> m = m'"
  by (simp add: Success_def)

lemma Error_inject: "Error err = Error err' \<longleftrightarrow> err = err'"
  by (simp add: Error_def)

lemma deliverTx_Success: "deliverTx e msg tx = Success m \<Longrightarrow> m = msg"
  by (auto simp add: deliverTx_def Let_def Error_neq_Success Success_inject split: if_splits)

lemmas outcome_simps = NoOp_neq_Success NoOp_neq_Success[symmetric] Error_neq_Success
  Error_neq_Success[symmetric] NoOp_neq_Error NoOp_neq_Error[symmetric] Success_inject Error_inject

lemma simAccountLoop_missing:
  "\<forall>acc \<in> set accs. Address acc \<noteq> delAddr \<Longrightarrow> simAccountLoop accs delAddr = zeroAccount"
  by (induction accs) auto

lemma FindAccount_missing:
  "\<forall>acc \<in> set accs. Address acc \<noteq> addr \<Longrightarrow> FindAccount accs addr = None"
  by (simp add: FindAccount_def find_None_iff)

lemma RandPositiveInt_bounds:
  assumes "RandPositiveInt r mx = (Inr a, r')"
  shows "0 < a \<and> a \<le> mx"
proof -
  from assms have pos: "0 < mx" and a: "a = 1 + int (fst (draw r)) mod mx"
    by (auto simp add: RandPositiveInt_def split: if_splits prod.splits)
  from pos have "0 \<le> int (fst (draw r)) mod mx" and "int (fst (draw r)) mod mx < mx"
    by simp_all
  with a show ?thesis by simp
qed

lemma feesAfter_deficit:
  "snd (SafeSub coins [reserved]) \<Longrightarrow> feesAfter lib r coins reserved = (Inr [], r)"
  by (cases "SafeSub coins [reserved]") (simp add: feesAfter_def)

lemma missing_PrivKey:
  "\<forall>acc \<in> set accs. Address acc \<noteq> delAddr \<Longrightarrow> PrivKey (simAccountLoop accs delAddr) = None"
  by (simp add: simAccountLoop_missing zeroAccount_def)

lemma replicate_10: "replicate 10 c = [c, c, c, c, c, c, c, c, c, c]"
  by (simp add: eval_nat_numeral)

lemma floor_rat_numeral_div:
  "\<lfloor>numeral a / numeral b :: rat\<rfloor> = numeral a div numeral b"
  by (metis floor_divide_of_int_eq of_int_numeral)

lemma no_delegations_panic:
  assumes "RandomValidator r (env_k e) = (Some validator, r1)"
    and "GetValidatorDelegations (env_k e) (OperatorAddress validator) = []"
  shows "SimulateMsgUndelegate e r accs chainID = None \<and>
         SimulateMsgBeginRedelegate e r accs chainID = None"
  using assms by (simp add: gen_defs Intn_def)

section \<open>A validator without delegations\<close>

text \<open>
  Claim C1. When the randomly chosen validator (the source validator, for
  Begin-Redelegate) has no delegation, SimulateMsgUndelegate and
  SimulateMsgBeginRedelegate are said to return NoOp. Neither has a guard for the empty
  list: both index it with \<open>r.Intn(len(delegations))\<close>, and \<open>Intn(0)\<close> panics
  (lemma \<open>no_delegations_panic\<close>). In the concrete state the third validator has lost
  its last delegation; the draw 2 selects it and both generators panic.
\<close>

theorem panic_without_delegations:
  "RandomValidator [2] (env_k envMain) = (Some valC, []) \<and>
   GetValidatorDelegations (env_k envMain) (OperatorAddress valC) = [] \<and>
   SimulateMsgUndelegate envMain [2] accsMain ''sim'' = None \<and>
   SimulateMsgBeginRedelegate envMain [2] accsMain ''sim'' = None"
  by (simp add: gen_defs fix_defs help_defs)

section \<open>The round trip through shares\<close>




section \<open>The operator of an edited validator\<close>

text \<open>
  Claim C3, amended: in SimulateMsgEditValidator, once a validator is selected and a new
  commission rate is drawn, a rate that fails \<open>ValidateNewRate\<close> makes the generator
  skip (NoOp), whether or not the operator has a simulation account; when the rate passes
  and no simulation account has the selected validator's operator address, the outcome
  is the error "validator not found".
\<close>

theorem edit_missing_operator_error:
  assumes "RandomValidator r (env_k e) = (Some val, r1)"
    and "RandomDecAmount (env_lib e) r1 (MaxRate val) = (newCommissionRate, r2)"
  shows "(ValidateNewRate (env_lib e) val newCommissionRate (BlockTime (env_ctx e)) \<noteq> None \<longrightarrow>
            SimulateMsgEditValidator e r accs chainID = Some NoOp) \<and>
         (ValidateNewRate (env_lib e) val newCommissionRate (BlockTime (env_ctx e)) = None \<and>
          (\<forall>acc \<in> set accs. Address acc \<noteq> OperatorAddress val) \<longrightarrow>
            SimulateMsgEditValidator e r accs chainID =
              Some (Error (ValidatorNotFound (OperatorAddress val))))"
proof (intro conjI impI)
  from assms(1) have vals: "GetAllValidators (env_k e) \<noteq> []"
    by (auto simp add: RandomValidator_def Let_def)
  {
    assume "ValidateNewRate (env_lib e) val newCommissionRate (BlockTime (env_ctx e)) \<noteq> None"
    with vals assms show "SimulateMsgEditValidator e r accs chainID = Some NoOp"
      by (auto simp add: SimulateMsgEditValidator_def)
  }
  {
    assume a: "ValidateNewRate (env_lib e) val newCommissionRate (BlockTime (env_ctx e)) = None \<and>
          (\<forall>acc \<in> set accs. Address acc \<noteq> OperatorAddress val)"
    then have "FindAccount accs (OperatorAddress val) = None"
      by (simp add: FindAccount_missing)
    with vals assms a show "SimulateMsgEditValidator e r accs chainID =
              Some (Error (ValidatorNotFound (OperatorAddress val)))"
      by (simp add: SimulateMsgEditValidator_def)
  }
qed

theorem edit_missing_operator_error_witness:
  "RandomValidator [2] (env_k envMain) = (Some valC, []) \<and>
   RandomDecAmount (env_lib envMain) [] (MaxRate valC) = (1 / 5, []) \<and>
   ValidateNewRate (env_lib envMain) valC (1 / 5) (BlockTime (env_ctx envMain)) = None \<and>
   OperatorAddress valC \<notin> Address ` set accsMain \<and>
   SimulateMsgEditValidator envMain [2] accsMain ''sim'' = Some (Error (ValidatorNotFound ''zoe'')) \<and>
   RandomValidator [3] (env_k envEarly) = (Some valD, []) \<and>
   RandomDecAmount (env_lib envEarly) [] (MaxRate valD) = (1 / 5, []) \<and>
   ValidateNewRate (env_lib envEarly) valD (1 / 5) (BlockTime (env_ctx envEarly)) \<noteq> None \<and>
   OperatorAddress valD \<notin> Address ` set accsMain \<and>
   SimulateMsgEditValidator envEarly [3] accsMain ''sim'' = Some NoOp"
proof -
  have p1: "RandomValidator [2] (env_k envMain) = (Some valC, [])"
    by (simp add: fix_defs help_defs)
  have p2: "RandomDecAmount (env_lib envMain) [] (MaxRate valC) = (1 / 5, [])"
    by (simp add: fix_defs)
  have p3: "ValidateNewRate (env_lib envMain) valC (1 / 5) (BlockTime (env_ctx envMain)) = None"
    by (simp add: fix_defs)
  have p4: "\<forall>acc \<in> set accsMain. Address acc \<noteq> OperatorAddress valC"
    by (simp add: fix_defs)
  have zoe: "OperatorAddress valC = ''zoe''"
    by (simp add: valC_def)
  from edit_missing_operator_error [OF p1 p2, where accs = accsMain and chainID = "''sim''"] p3 p4
  have err: "SimulateMsgEditValidator envMain [2] accsMain ''sim'' =
          Some (Error (ValidatorNotFound (OperatorAddress valC)))"
    by blast
  have q1: "RandomValidator [3] (env_k envEarly) = (Some valD, [])"
    by (simp add: fix_defs help_defs)
  have q2: "RandomDecAmount (env_lib envEarly) [] (MaxRate valD) = (1 / 5, [])"
    by (simp add: fix_defs)
  have q3: "ValidateNewRate (env_lib envEarly) valD (1 / 5) (BlockTime (env_ctx envEarly)) \<noteq> None"
    by (simp add: fix_defs)
  have q4: "OperatorAddress valD \<notin> Address ` set accsMain"
    by (simp add: fix_defs)
  from edit_missing_operator_error [OF q1 q2, where accs = accsMain and chainID = "''sim''"] q3
  have skip: "SimulateMsgEditValidator envEarly [3] accsMain ''sim'' = Some NoOp"
    by blast
  from p1 p2 p3 p4 zoe err q1 q2 q3 q4 skip show ?thesis by auto
qed

text \<open>
  Without the condition on the rate the outcome is not always the error: the check of
  the new commission rate (lines 113-116) comes before the lookup of the operator's
  account (lines 118-121). One minute after genesis the rate may not change yet; the
  selected validator's operator \<open>zoe\<close> is not a simulation account, and the outcome is
  NoOp.
\<close>

theorem edit_skips_before_lookup:
  "RandomValidator [2] (env_k envEarly) = (Some valC, []) \<and>
   FindAccount accsMain (OperatorAddress valC) = None \<and>
   SimulateMsgEditValidator envEarly [2] accsMain ''sim'' = Some NoOp"
  by (simp add: gen_defs fix_defs help_defs)

section \<open>No validator\<close>

text \<open>
  Claim C5. In a state with no validator, SimulateMsgEditValidator, SimulateMsgDelegate,
  SimulateMsgUndelegate and SimulateMsgBeginRedelegate all return NoOp with a nil error
  (\<open>NoOp\<close> is the return \<open>NoOpMsg, nil, nil\<close>), whatever the random source, the accounts
  and the chain id.
\<close>

theorem no_validator_noop:
  assumes "GetAllValidators (env_k e) = []"
  shows "SimulateMsgEditValidator e r accs chainID = Some NoOp \<and>
         SimulateMsgDelegate e r accs chainID = Some NoOp \<and>
         SimulateMsgUndelegate e r accs chainID = Some NoOp \<and>
         SimulateMsgBeginRedelegate e r accs chainID = Some NoOp"
  using assms by (simp add: gen_defs RandomValidator_def)

theorem no_validator_noop_witness:
  "GetAllValidators (env_k envEmpty) = [] \<and>
   SimulateMsgEditValidator envEmpty [3, 1] accsMain ''sim'' = Some NoOp \<and>
   SimulateMsgDelegate envEmpty [3, 1] accsMain ''sim'' = Some NoOp \<and>
   SimulateMsgUndelegate envEmpty [3, 1] accsMain ''sim'' = Some NoOp \<and>
   SimulateMsgBeginRedelegate envEmpty [3, 1] accsMain ''sim'' = Some NoOp"
proof -
  have h: "GetAllValidators (env_k envEmpty) = []"
    by (simp add: fix_defs)
  from no_validator_noop [OF h, where r = "[3, 1]" and accs = accsMain and chainID = "''sim''"] h
  show ?thesis by simp
qed

section \<open>The delegator of an undelegation or redelegation\<close>

text \<open>
  Claim C6, amended: when the selected delegation's delegator address matches no account
  of the supplied list, SimulateMsgUndelegate and SimulateMsgBeginRedelegate never
  succeed. The outcome is the error "delegation addr does not exist in simulation
  accounts" when none of the earlier returns fires: for Undelegate, the delegator is
  below the maximum of unbonding entries, the delegation is worth a positive number of
  tokens and a nonzero amount is drawn; for Begin-Redelegate, there is no receiving
  redelegation, the destination differs from the source, has a valid exchange rate and
  is below the maximum of redelegation entries, the delegation is worth a positive
  number of tokens, a nonzero amount is drawn and it survives the round trip through
  shares. The outcome is NoOp with a nil error when an earlier skip fires: for
  Undelegate, the delegator is at the maximum of unbonding entries or the delegation is
  worth no token; for Begin-Redelegate, there is a receiving redelegation, or the drawn
  destination is the source, has an invalid exchange rate or is at the maximum of
  redelegation entries, or the delegation is worth no token, or the drawn amount does
  not survive the round trip through shares.
\<close>

theorem missing_delegator_error:
  assumes sel: "RandomValidator r (env_k e) = (Some validator, r1)"
    and idx: "Intn r1 (length (GetValidatorDelegations (env_k e) (OperatorAddress validator))) = Some (i, r2)"
    and del: "delegation = GetValidatorDelegations (env_k e) (OperatorAddress validator) ! i"
    and tb: "totalBond = TruncateInt (TokensFromShares (env_lib e) validator (Shares delegation))"
    and missing: "\<forall>acc \<in> set accs. Address acc \<noteq> DelegatorAddress delegation"
  shows "SimulateMsgUndelegate e r accs chainID \<noteq> Some (Success msg) \<and>
         SimulateMsgBeginRedelegate e r accs chainID \<noteq> Some (Success msg) \<and>
         (\<not> HasMaxUnbondingDelegationEntries (env_k e) (DelegatorAddress delegation) (OperatorAddress validator) \<and>
          0 < totalBond \<and>
          RandPositiveInt r2 totalBond = (Inr unbondAmt, q3) \<and>
          unbondAmt \<noteq> 0 \<longrightarrow>
            SimulateMsgUndelegate e r accs chainID =
              Some (Error (DelegationAddrNotInAccs (DelegatorAddress delegation)))) \<and>
         (\<not> HasReceivingRedelegation (env_k e) (DelegatorAddress delegation) (OperatorAddress validator) \<and>
          RandomValidator r2 (env_k e) = (Some destVal, r3) \<and>
          OperatorAddress validator \<noteq> OperatorAddress destVal \<and>
          \<not> InvalidExRate (env_lib e) destVal \<and>
          \<not> HasMaxRedelegationEntries (env_k e) (DelegatorAddress delegation)
               (OperatorAddress validator) (OperatorAddress destVal) \<and>
          0 < totalBond \<and>
          RandPositiveInt r3 totalBond = (Inr redAmt, r4) \<and>
          redAmt \<noteq> 0 \<and>
          SharesFromTokens (env_lib e) validator redAmt = Inr shares \<and>
          TruncateInt (TokensFromShares (env_lib e) validator shares) \<noteq> 0 \<longrightarrow>
            SimulateMsgBeginRedelegate e r accs chainID =
              Some (Error (DelegationAddrNotInAccs (DelegatorAddress delegation)))) \<and>
         (HasMaxUnbondingDelegationEntries (env_k e) (DelegatorAddress delegation) (OperatorAddress validator) \<longrightarrow>
            SimulateMsgUndelegate e r accs chainID = Some NoOp) \<and>
         (totalBond \<le> 0 \<longrightarrow>
            SimulateMsgUndelegate e r accs chainID = Some NoOp) \<and>
         (HasReceivingRedelegation (env_k e) (DelegatorAddress delegation) (OperatorAddress validator) \<longrightarrow>
            SimulateMsgBeginRedelegate e r accs chainID = Some NoOp) \<and>
         (RandomValidator r2 (env_k e) = (Some destVal, r3) \<and>
          (OperatorAddress validator = OperatorAddress destVal \<or>
           InvalidExRate (env_lib e) destVal \<or>
           HasMaxRedelegationEntries (env_k e) (DelegatorAddress delegation)
             (OperatorAddress validator) (OperatorAddress destVal) \<or>
           totalBond \<le> 0) \<longrightarrow>
            SimulateMsgBeginRedelegate e r accs chainID = Some NoOp) \<and>
         (RandomValidator r2 (env_k e) = (Some destVal, r3) \<and>
          RandPositiveInt r3 totalBond = (Inr redAmt, r4) \<and>
          SharesFromTokens (env_lib e) validator redAmt = Inr shares \<and>
          TruncateInt (TokensFromShares (env_lib e) validator shares) = 0 \<longrightarrow>
            SimulateMsgBeginRedelegate e r accs chainID = Some NoOp)"
proof (intro conjI impI)
  note key = missing_PrivKey [OF missing]
  show "SimulateMsgUndelegate e r accs chainID \<noteq> Some (Success msg)"
    using sel idx del key unfolding SimulateMsgUndelegate_def
    by (auto simp add: Let_def outcome_simps split: prod.splits sum.splits)
  show "SimulateMsgBeginRedelegate e r accs chainID \<noteq> Some (Success msg)"
    using sel idx del key unfolding SimulateMsgBeginRedelegate_def
    by (auto simp add: Let_def outcome_simps split: prod.splits sum.splits option.splits)
next
  assume "\<not> HasMaxUnbondingDelegationEntries (env_k e) (DelegatorAddress delegation) (OperatorAddress validator) \<and>
          0 < totalBond \<and>
          RandPositiveInt r2 totalBond = (Inr unbondAmt, q3) \<and>
          unbondAmt \<noteq> 0"
  then show "SimulateMsgUndelegate e r accs chainID =
              Some (Error (DelegationAddrNotInAccs (DelegatorAddress delegation)))"
    using sel idx del tb missing_PrivKey [OF missing]
    by (simp add: SimulateMsgUndelegate_def Let_def)
next
  assume "\<not> HasReceivingRedelegation (env_k e) (DelegatorAddress delegation) (OperatorAddress validator) \<and>
          RandomValidator r2 (env_k e) = (Some destVal, r3) \<and>
          OperatorAddress validator \<noteq> OperatorAddress destVal \<and>
          \<not> InvalidExRate (env_lib e) destVal \<and>
          \<not> HasMaxRedelegationEntries (env_k e) (DelegatorAddress delegation)
               (OperatorAddress validator) (OperatorAddress destVal) \<and>
          0 < totalBond \<and>
          RandPositiveInt r3 totalBond = (Inr redAmt, r4) \<and>
          redAmt \<noteq> 0 \<and>
          SharesFromTokens (env_lib e) validator redAmt = Inr shares \<and>
          TruncateInt (TokensFromShares (env_lib e) validator shares) \<noteq> 0"
  then show "SimulateMsgBeginRedelegate e r accs chainID =
              Some (Error (DelegationAddrNotInAccs (DelegatorAddress delegation)))"
    using sel idx del tb missing_PrivKey [OF missing]
    by (simp add: SimulateMsgBeginRedelegate_def Let_def)
next
  assume "HasMaxUnbondingDelegationEntries (env_k e) (DelegatorAddress delegation) (OperatorAddress validator)"
  then show "SimulateMsgUndelegate e r accs chainID = Some NoOp"
    using sel idx del by (simp add: SimulateMsgUndelegate_def Let_def)
next
  assume "totalBond \<le> 0"
  then show "SimulateMsgUndelegate e r accs chainID = Some NoOp"
    using sel idx del tb by (simp add: SimulateMsgUndelegate_def Let_def)
next
  assume "HasReceivingRedelegation (env_k e) (DelegatorAddress delegation) (OperatorAddress validator)"
  then show "SimulateMsgBeginRedelegate e r accs chainID = Some NoOp"
    using sel idx del by (simp add: SimulateMsgBeginRedelegate_def Let_def)
next
  assume "RandomValidator r2 (env_k e) = (Some destVal, r3) \<and>
          (OperatorAddress validator = OperatorAddress destVal \<or>
           InvalidExRate (env_lib e) destVal \<or>
           HasMaxRedelegationEntries (env_k e) (DelegatorAddress delegation)
             (OperatorAddress validator) (OperatorAddress destVal) \<or>
           totalBond \<le> 0)"
  then show "SimulateMsgBeginRedelegate e r accs chainID = Some NoOp"
    using sel idx del tb by (auto simp add: SimulateMsgBeginRedelegate_def Let_def)
next
  assume "RandomValidator r2 (env_k e) = (Some destVal, r3) \<and>
          RandPositiveInt r3 totalBond = (Inr redAmt, r4) \<and>
          SharesFromTokens (env_lib e) validator redAmt = Inr shares \<and>
          TruncateInt (TokensFromShares (env_lib e) validator shares) = 0"
  then show "SimulateMsgBeginRedelegate e r accs chainID = Some NoOp"
    using sel idx del tb by (simp add: SimulateMsgBeginRedelegate_def Let_def)
qed

theorem missing_delegator_error_witness:
  "''erin'' \<notin> Address ` set accsMain \<and> ''dave'' \<notin> Address ` set accsMain \<and>
   RandomValidator [1, 2, 0, 4] (env_k envMain) = (Some valB, [2, 0, 4]) \<and>
   Intn [2, 0, 4] (length (GetValidatorDelegations (env_k envMain) (OperatorAddress valB))) = Some (2, [0, 4]) \<and>
   DelegatorAddress (GetValidatorDelegations (env_k envMain) (OperatorAddress valB) ! 2) = ''erin'' \<and>
   SimulateMsgUndelegate envMain [1, 2, 0, 4] accsMain ''sim'' =
     Some (Error (DelegationAddrNotInAccs ''erin'')) \<and>
   SimulateMsgBeginRedelegate envMain [1, 2, 0, 4] accsMain ''sim'' =
     Some (Error (DelegationAddrNotInAccs ''erin'')) \<and>
   DelegatorAddress (GetValidatorDelegations (env_k envMain) (OperatorAddress valB) ! 1) = ''dave'' \<and>
   SimulateMsgUndelegate envMain [1, 1, 5] accsMain ''sim'' = Some NoOp \<and>
   DelegatorAddress (GetValidatorDelegations (env_k envAlt) (OperatorAddress valD) ! 0) = ''erin'' \<and>
   SimulateMsgUndelegate envAlt [3, 0, 1] accsMain ''sim'' = Some NoOp \<and>
   SimulateMsgBeginRedelegate envAlt [3, 0, 1] accsMain ''sim'' = Some NoOp \<and>
   SimulateMsgBeginRedelegate envAlt [1, 1, 0] accsMain ''sim'' = Some NoOp \<and>
   SimulateMsgBeginRedelegate envMain [1, 2, 1] accsMain ''sim'' = Some NoOp \<and>
   SimulateMsgBeginRedelegate envMain [1, 2, 3] accsMain ''sim'' = Some NoOp \<and>
   SimulateMsgBeginRedelegate envAlt [1, 2, 2] accsMain ''sim'' = Some NoOp \<and>
   DelegatorAddress (GetValidatorDelegations (env_k envAlt) (OperatorAddress valA) ! 0) = ''erin'' \<and>
   SimulateMsgBeginRedelegate envAlt [0, 0, 1, 0] accsMain ''sim'' = Some NoOp"
proof -
  let ?erinB = "GetValidatorDelegations (env_k envMain) (OperatorAddress valB) ! 2"
  let ?daveB = "GetValidatorDelegations (env_k envMain) (OperatorAddress valB) ! 1"
  let ?erinB' = "GetValidatorDelegations (env_k envAlt) (OperatorAddress valB) ! 2"
  let ?daveB' = "GetValidatorDelegations (env_k envAlt) (OperatorAddress valB) ! 1"
  let ?erinD = "GetValidatorDelegations (env_k envAlt) (OperatorAddress valD) ! 0"
  let ?erinA = "GetValidatorDelegations (env_k envAlt) (OperatorAddress valA) ! 0"
  have out: "''erin'' \<notin> Address ` set accsMain" "''dave'' \<notin> Address ` set accsMain"
    by (simp_all add: fix_defs)
  have who: "DelegatorAddress ?erinB = ''erin''" "DelegatorAddress ?daveB = ''dave''"
    "DelegatorAddress ?erinB' = ''erin''" "DelegatorAddress ?daveB' = ''dave''"
    "DelegatorAddress ?erinD = ''erin''" "DelegatorAddress ?erinA = ''erin''"
    by (simp_all add: fix_defs)
  have missing: "\<forall>acc \<in> set accsMain. Address acc \<noteq> DelegatorAddress ?erinB"
    "\<forall>acc \<in> set accsMain. Address acc \<noteq> DelegatorAddress ?daveB"
    "\<forall>acc \<in> set accsMain. Address acc \<noteq> DelegatorAddress ?erinB'"
    "\<forall>acc \<in> set accsMain. Address acc \<noteq> DelegatorAddress ?daveB'"
    "\<forall>acc \<in> set accsMain. Address acc \<noteq> DelegatorAddress ?erinD"
    "\<forall>acc \<in> set accsMain. Address acc \<noteq> DelegatorAddress ?erinA"
    by (simp_all add: fix_defs)
  have tb: "TruncateInt (TokensFromShares (env_lib envMain) valB (Shares ?erinB)) = 200000"
    "TruncateInt (TokensFromShares (env_lib envMain) valB (Shares ?daveB)) = 300000"
    "TruncateInt (TokensFromShares (env_lib envAlt) valB (Shares ?erinB')) = 200000"
    "TruncateInt (TokensFromShares (env_lib envAlt) valB (Shares ?daveB')) = 300000"
    "TruncateInt (TokensFromShares (env_lib envAlt) valD (Shares ?erinD)) = 0"
    "TruncateInt (TokensFromShares (env_lib envAlt) valA (Shares ?erinA)) = 17"
    by (simp_all add: fix_defs help_defs Let_def floor_rat_numeral_div)

  have selA: "RandomValidator [1, 2, 0, 4] (env_k envMain) = (Some valB, [2, 0, 4])"
    by (simp add: fix_defs help_defs)
  have idxA: "Intn [2, 0, 4] (length (GetValidatorDelegations (env_k envMain) (OperatorAddress valB))) = Some (2, [0, 4])"
    by (simp add: fix_defs help_defs)
  have uA: "\<not> HasMaxUnbondingDelegationEntries (env_k envMain) (DelegatorAddress ?erinB) (OperatorAddress valB) \<and>
          (0::int) < 200000 \<and>
          RandPositiveInt [0, 4] 200000 = (Inr 1, [4]) \<and>
          (1::int) \<noteq> 0"
    by (simp add: fix_defs help_defs)
  have gA: "\<not> HasReceivingRedelegation (env_k envMain) (DelegatorAddress ?erinB) (OperatorAddress valB) \<and>
          RandomValidator [0, 4] (env_k envMain) = (Some valA, [4]) \<and>
          OperatorAddress valB \<noteq> OperatorAddress valA \<and>
          \<not> InvalidExRate (env_lib envMain) valA \<and>
          \<not> HasMaxRedelegationEntries (env_k envMain) (DelegatorAddress ?erinB)
               (OperatorAddress valB) (OperatorAddress valA) \<and>
          (0::int) < 200000 \<and>
          RandPositiveInt [4] 200000 = (Inr 5, []) \<and>
          (5::int) \<noteq> 0 \<and>
          SharesFromTokens (env_lib envMain) valB 5 = Inr 5 \<and>
          TruncateInt (TokensFromShares (env_lib envMain) valB 5) \<noteq> 0"
    by (simp add: fix_defs help_defs Let_def)
  from missing_delegator_error [OF selA idxA refl tb(1) [symmetric] missing(1),
      where chainID = "''sim''" and unbondAmt = 1 and ?q3.0 = "[4]"
        and destVal = valA and ?r3.0 = "[4]" and redAmt = 5 and ?r4.0 = "[]" and shares = 5] uA gA
  have A: "SimulateMsgUndelegate envMain [1, 2, 0, 4] accsMain ''sim'' =
          Some (Error (DelegationAddrNotInAccs ''erin''))"
    "SimulateMsgBeginRedelegate envMain [1, 2, 0, 4] accsMain ''sim'' =
          Some (Error (DelegationAddrNotInAccs ''erin''))"
    unfolding who by simp_all

  have selB: "RandomValidator [1, 1, 5] (env_k envMain) = (Some valB, [1, 5])"
    by (simp add: fix_defs help_defs)
  have idxB: "Intn [1, 5] (length (GetValidatorDelegations (env_k envMain) (OperatorAddress valB))) = Some (1, [5])"
    by (simp add: fix_defs help_defs)
  have hB: "HasMaxUnbondingDelegationEntries (env_k envMain) (DelegatorAddress ?daveB) (OperatorAddress valB)"
    by (simp add: fix_defs)
  from missing_delegator_error [OF selB idxB refl tb(2) [symmetric] missing(2),
      where chainID = "''sim''"] hB
  have B: "SimulateMsgUndelegate envMain [1, 1, 5] accsMain ''sim'' = Some NoOp"
    by blast

  have selC: "RandomValidator [3, 0, 1] (env_k envAlt) = (Some valD, [0, 1])"
    by (simp add: fix_defs help_defs)
  have idxC: "Intn [0, 1] (length (GetValidatorDelegations (env_k envAlt) (OperatorAddress valD))) = Some (0, [1])"
    by (simp add: fix_defs help_defs)
  have hC: "RandomValidator [1] (env_k envAlt) = (Some valB, []) \<and>
          (OperatorAddress valD = OperatorAddress valB \<or>
           InvalidExRate (env_lib envAlt) valB \<or>
           HasMaxRedelegationEntries (env_k envAlt) (DelegatorAddress ?erinD)
             (OperatorAddress valD) (OperatorAddress valB) \<or>
           (0::int) \<le> 0)"
    by (simp add: fix_defs help_defs)
  note tC = missing_delegator_error [OF selC idxC refl tb(5) [symmetric] missing(5),
      where chainID = "''sim''" and destVal = valB and ?r3.0 = "[]"]
  from tC have C1: "SimulateMsgUndelegate envAlt [3, 0, 1] accsMain ''sim'' = Some NoOp"
    by simp
  from tC hC have C2: "SimulateMsgBeginRedelegate envAlt [3, 0, 1] accsMain ''sim'' = Some NoOp"
    by blast

  have selD: "RandomValidator [1, 1, 0] (env_k envAlt) = (Some valB, [1, 0])"
    by (simp add: fix_defs help_defs)
  have idxD: "Intn [1, 0] (length (GetValidatorDelegations (env_k envAlt) (OperatorAddress valB))) = Some (1, [0])"
    by (simp add: fix_defs help_defs)
  have hD: "HasReceivingRedelegation (env_k envAlt) (DelegatorAddress ?daveB') (OperatorAddress valB)"
    by (simp add: fix_defs)
  from missing_delegator_error [OF selD idxD refl tb(4) [symmetric] missing(4),
      where chainID = "''sim''"] hD
  have D: "SimulateMsgBeginRedelegate envAlt [1, 1, 0] accsMain ''sim'' = Some NoOp"
    by blast

  have selE: "RandomValidator [1, 2, 1] (env_k envMain) = (Some valB, [2, 1])"
    by (simp add: fix_defs help_defs)
  have idxE: "Intn [2, 1] (length (GetValidatorDelegations (env_k envMain) (OperatorAddress valB))) = Some (2, [1])"
    by (simp add: fix_defs help_defs)
  have hE: "RandomValidator [1] (env_k envMain) = (Some valB, []) \<and>
          OperatorAddress valB = OperatorAddress valB"
    by (simp add: fix_defs help_defs)
  from missing_delegator_error [OF selE idxE refl tb(1) [symmetric] missing(1),
      where chainID = "''sim''" and destVal = valB and ?r3.0 = "[]"] hE
  have E: "SimulateMsgBeginRedelegate envMain [1, 2, 1] accsMain ''sim'' = Some NoOp"
    by blast

  have selF: "RandomValidator [1, 2, 3] (env_k envMain) = (Some valB, [2, 3])"
    by (simp add: fix_defs help_defs)
  have idxF: "Intn [2, 3] (length (GetValidatorDelegations (env_k envMain) (OperatorAddress valB))) = Some (2, [3])"
    by (simp add: fix_defs help_defs)
  have hF: "RandomValidator [3] (env_k envMain) = (Some valD, []) \<and>
          InvalidExRate (env_lib envMain) valD"
    by (simp add: fix_defs help_defs)
  from missing_delegator_error [OF selF idxF refl tb(1) [symmetric] missing(1),
      where chainID = "''sim''" and destVal = valD and ?r3.0 = "[]"] hF
  have F: "SimulateMsgBeginRedelegate envMain [1, 2, 3] accsMain ''sim'' = Some NoOp"
    by blast

  have selG: "RandomValidator [1, 2, 2] (env_k envAlt) = (Some valB, [2, 2])"
    by (simp add: fix_defs help_defs)
  have idxG: "Intn [2, 2] (length (GetValidatorDelegations (env_k envAlt) (OperatorAddress valB))) = Some (2, [2])"
    by (simp add: fix_defs help_defs)
  have hG: "RandomValidator [2] (env_k envAlt) = (Some valC, []) \<and>
          HasMaxRedelegationEntries (env_k envAlt) (DelegatorAddress ?erinB')
             (OperatorAddress valB) (OperatorAddress valC)"
    by (simp add: fix_defs help_defs)
  from missing_delegator_error [OF selG idxG refl tb(3) [symmetric] missing(3),
      where chainID = "''sim''" and destVal = valC and ?r3.0 = "[]"] hG
  have G: "SimulateMsgBeginRedelegate envAlt [1, 2, 2] accsMain ''sim'' = Some NoOp"
    by blast

  have selH: "RandomValidator [0, 0, 1, 0] (env_k envAlt) = (Some valA, [0, 1, 0])"
    by (simp add: fix_defs help_defs)
  have idxH: "Intn [0, 1, 0] (length (GetValidatorDelegations (env_k envAlt) (OperatorAddress valA))) = Some (0, [1, 0])"
    by (simp add: fix_defs help_defs)
  have hH: "RandomValidator [1, 0] (env_k envAlt) = (Some valB, [0]) \<and>
          RandPositiveInt [0] 17 = (Inr 1, []) \<and>
          SharesFromTokens (env_lib envAlt) valA 1 = Inr (1058823529411764705 / 10 ^ 18) \<and>
          TruncateInt (TokensFromShares (env_lib envAlt) valA (1058823529411764705 / 10 ^ 18)) = 0"
    by (simp add: fix_defs help_defs Let_def floor_rat_numeral_div)
  from missing_delegator_error [OF selH idxH refl tb(6) [symmetric] missing(6),
      where chainID = "''sim''" and destVal = valB and ?r3.0 = "[0]" and redAmt = 1
        and ?r4.0 = "[]" and shares = "1058823529411764705 / 10 ^ 18"] hH
  have H: "SimulateMsgBeginRedelegate envAlt [0, 0, 1, 0] accsMain ''sim'' = Some NoOp"
    by blast

  from out selA idxA who A B C1 C2 D E F G H show ?thesis by simp
qed

text \<open>
  Without those conditions the outcome is not always the error; it can be a skip with a
  nil error, in both generators, since the returns of lines 243-259 and 322-362 come
  before the lookup of the delegator's account (lines 266-276 and 364-375). The delegator
  \<open>dave\<close> is not a simulation account; Undelegate finds him at the maximum of unbonding
  entries, Begin-Redelegate draws the source again as the destination, and both
  outcomes are NoOp.
\<close>

theorem undelegate_skips_before_lookup:
  "RandomValidator [1, 1, 0] (env_k envMain) = (Some valB, [1, 0]) \<and>
   Intn [1, 0] (length (GetValidatorDelegations (env_k envMain) (OperatorAddress valB))) = Some (1, [0]) \<and>
   DelegatorAddress (GetValidatorDelegations (env_k envMain) (OperatorAddress valB) ! 1) = ''dave'' \<and>
   ''dave'' \<notin> Address ` set accsMain \<and>
   SimulateMsgUndelegate envMain [1, 1, 0] accsMain ''sim'' = Some NoOp \<and>
   RandomValidator [1, 1, 1] (env_k envMain) = (Some valB, [1, 1]) \<and>
   Intn [1, 1] (length (GetValidatorDelegations (env_k envMain) (OperatorAddress valB))) = Some (1, [1]) \<and>
   RandomValidator [1] (env_k envMain) = (Some valB, []) \<and>
   SimulateMsgBeginRedelegate envMain [1, 1, 1] accsMain ''sim'' = Some NoOp"
  by (simp add: gen_defs fix_defs help_defs)

section \<open>The principal of a new validator or delegation\<close>

text \<open>
  Claim C7. Every message of a successful SimulateMsgCreateValidator or
  SimulateMsgDelegate is built for the account \<open>simAccount\<close> that \<open>RandomAcc\<close> drew,
  in the bonding denomination, and its amount (the self-delegation or the bond) is
  strictly positive and at most the balance of that account in the bonding denomination
  as the account keeper gives it at the call.
\<close>

theorem principal_within_balance:
  "(SimulateMsgCreateValidator e r accs chainID = Some (Success msg) \<longrightarrow>
      (\<exists>simAccount r1 holder amount description commission.
         RandomAcc r accs = Some (simAccount, r1) \<and>
         GetAccount (env_ak e) (Address simAccount) = Some holder \<and>
         msg = NewMsgCreateValidator (Address simAccount) (PubKey simAccount)
                 (BondDenom (env_k e), amount) description commission 1 \<and>
         0 < amount \<and> amount \<le> AmountOf (GetCoins holder) (BondDenom (env_k e)))) \<and>
   (SimulateMsgDelegate e r accs chainID = Some (Success msg') \<longrightarrow>
      (\<exists>simAccount r1 holder amount val r2.
         RandomAcc r accs = Some (simAccount, r1) \<and>
         RandomValidator r1 (env_k e) = (Some val, r2) \<and>
         GetAccount (env_ak e) (Address simAccount) = Some holder \<and>
         msg' = NewMsgDelegate (Address simAccount) (OperatorAddress val)
                  (BondDenom (env_k e), amount) \<and>
         0 < amount \<and> amount \<le> AmountOf (GetCoins holder) (BondDenom (env_k e))))"
proof (intro conjI impI)
  assume "SimulateMsgCreateValidator e r accs chainID = Some (Success msg)"
  then show "\<exists>simAccount r1 holder amount description commission.
         RandomAcc r accs = Some (simAccount, r1) \<and>
         GetAccount (env_ak e) (Address simAccount) = Some holder \<and>
         msg = NewMsgCreateValidator (Address simAccount) (PubKey simAccount)
                 (BondDenom (env_k e), amount) description commission 1 \<and>
         0 < amount \<and> amount \<le> AmountOf (GetCoins holder) (BondDenom (env_k e))"
    unfolding SimulateMsgCreateValidator_def
    by (auto simp add: Let_def outcome_simps NewCoin_def
        dest!: deliverTx_Success RandPositiveInt_bounds
        split: prod.splits option.splits sum.splits if_splits Option.bind_splits)
next
  assume "SimulateMsgDelegate e r accs chainID = Some (Success msg')"
  then show "\<exists>simAccount r1 holder amount val r2.
         RandomAcc r accs = Some (simAccount, r1) \<and>
         RandomValidator r1 (env_k e) = (Some val, r2) \<and>
         GetAccount (env_ak e) (Address simAccount) = Some holder \<and>
         msg' = NewMsgDelegate (Address simAccount) (OperatorAddress val)
                  (BondDenom (env_k e), amount) \<and>
         0 < amount \<and> amount \<le> AmountOf (GetCoins holder) (BondDenom (env_k e))"
    unfolding SimulateMsgDelegate_def
    by (auto simp add: Let_def outcome_simps NewCoin_def
        dest!: deliverTx_Success RandPositiveInt_bounds
        split: prod.splits option.splits sum.splits if_splits Option.bind_splits)
qed

theorem principal_within_balance_witness:
  "SimulateMsgCreateValidator envMain [2, 1, 1] accsMain ''sim'' =
     Some (Success (NewMsgCreateValidator ''carol'' (Some ''pubC'') (''stake'', 2)
       (NewDescription ''aaaaaaaaaa'' ''aaaaaaaaaa'' ''aaaaaaaaaa'' ''aaaaaaaaaa'' ''aaaaaaaaaa'')
       (NewCommissionRates 0 0 0) 1)) \<and>
   SimulateMsgDelegate envMain [2, 1, 1] accsMain ''sim'' =
     Some (Success (NewMsgDelegate ''carol'' ''bob'' (''stake'', 2))) \<and>
   (\<exists>holder. GetAccount (env_ak envMain) ''carol'' = Some holder \<and>
      (0::int) < 2 \<and> 2 \<le> AmountOf (GetCoins holder) (BondDenom (env_k envMain)))"
proof -
  let ?msg = "NewMsgCreateValidator ''carol'' (Some ''pubC'') (''stake'', 2)
       (NewDescription ''aaaaaaaaaa'' ''aaaaaaaaaa'' ''aaaaaaaaaa'' ''aaaaaaaaaa'' ''aaaaaaaaaa'')
       (NewCommissionRates 0 0 0) 1"
  have c: "SimulateMsgCreateValidator envMain [2, 1, 1] accsMain ''sim'' = Some (Success ?msg)"
    by (simp add: gen_defs fix_defs help_defs Let_def replicate_10)
  have d: "SimulateMsgDelegate envMain [2, 1, 1] accsMain ''sim'' =
             Some (Success (NewMsgDelegate ''carol'' ''bob'' (''stake'', 2)))"
    by (simp add: gen_defs fix_defs help_defs Let_def)
  from principal_within_balance [of envMain "[2, 1, 1]" accsMain "''sim''" ?msg
      "NewMsgDelegate ''carol'' ''bob'' (''stake'', 2)"] c
  have "\<exists>holder. GetAccount (env_ak envMain) ''carol'' = Some holder \<and>
      (0::int) < 2 \<and> 2 \<le> AmountOf (GetCoins holder) (BondDenom (env_k envMain))"
    by auto
  with c d show ?thesis by blast
qed

section \<open>Source and destination of a redelegation\<close>

text \<open>
  Claim C8. The message of a successful SimulateMsgBeginRedelegate is a Begin-Redelegate
  message whose source validator address differs from its destination validator
  address, for every state, random source and account list.
\<close>

theorem redelegate_distinct:
  assumes "SimulateMsgBeginRedelegate e r accs chainID = Some (Success msg)"
  shows "\<exists>delAddr srcAddr destAddr amt.
           msg = NewMsgBeginRedelegate delAddr srcAddr destAddr amt \<and> srcAddr \<noteq> destAddr"
  using assms unfolding SimulateMsgBeginRedelegate_def
  by (auto simp add: Let_def outcome_simps dest!: deliverTx_Success
      split: prod.splits option.splits sum.splits if_splits Option.bind_splits)

theorem redelegate_distinct_witness:
  "SimulateMsgBeginRedelegate envMain [1, 0, 0, 4] accsMain ''sim'' =
     Some (Success (NewMsgBeginRedelegate ''bob'' ''bob'' ''alice'' (''stake'', 5))) \<and>
   (\<exists>delAddr srcAddr destAddr amt.
      NewMsgBeginRedelegate ''bob'' ''bob'' ''alice'' (''stake'', 5) =
        NewMsgBeginRedelegate delAddr srcAddr destAddr amt \<and> srcAddr \<noteq> destAddr)"
proof -
  have run: "SimulateMsgBeginRedelegate envMain [1, 0, 0, 4] accsMain ''sim'' =
     Some (Success (NewMsgBeginRedelegate ''bob'' ''bob'' ''alice'' (''stake'', 5)))"
    by (simp add: gen_defs fix_defs help_defs Let_def)
  from redelegate_distinct [OF run] run show ?thesis by blast
qed

section \<open>The amount of an undelegation\<close>

text \<open>
  Claim C9. The message of a successful SimulateMsgUndelegate is built for the selected
  validator and delegation, and its amount is strictly positive and at most the
  delegation's shares converted to tokens by the validator and truncated
  (\<open>totalBond\<close>). When that bound is not positive, so that no such amount exists, the
  outcome is NoOp.
\<close>

theorem undelegate_amount_bounds:
  "(SimulateMsgUndelegate e r accs chainID = Some (Success msg) \<longrightarrow>
      (\<exists>validator r1 i r2 unbondAmt.
         RandomValidator r (env_k e) = (Some validator, r1) \<and>
         Intn r1 (length (GetValidatorDelegations (env_k e) (OperatorAddress validator))) = Some (i, r2) \<and>
         msg = NewMsgUndelegate
                 (DelegatorAddress (GetValidatorDelegations (env_k e) (OperatorAddress validator) ! i))
                 (OperatorAddress validator) (BondDenom (env_k e), unbondAmt) \<and>
         0 < unbondAmt \<and>
         unbondAmt \<le> TruncateInt (TokensFromShares (env_lib e) validator
           (Shares (GetValidatorDelegations (env_k e) (OperatorAddress validator) ! i))))) \<and>
   (RandomValidator r (env_k e) = (Some v, r1') \<and>
    Intn r1' (length (GetValidatorDelegations (env_k e) (OperatorAddress v))) = Some (j, r2') \<and>
    TruncateInt (TokensFromShares (env_lib e) v
      (Shares (GetValidatorDelegations (env_k e) (OperatorAddress v) ! j))) \<le> 0 \<longrightarrow>
    SimulateMsgUndelegate e r accs chainID = Some NoOp)"
proof (intro conjI impI)
  assume "SimulateMsgUndelegate e r accs chainID = Some (Success msg)"
  then show "\<exists>validator r1 i r2 unbondAmt.
         RandomValidator r (env_k e) = (Some validator, r1) \<and>
         Intn r1 (length (GetValidatorDelegations (env_k e) (OperatorAddress validator))) = Some (i, r2) \<and>
         msg = NewMsgUndelegate
                 (DelegatorAddress (GetValidatorDelegations (env_k e) (OperatorAddress validator) ! i))
                 (OperatorAddress validator) (BondDenom (env_k e), unbondAmt) \<and>
         0 < unbondAmt \<and>
         unbondAmt \<le> TruncateInt (TokensFromShares (env_lib e) validator
           (Shares (GetValidatorDelegations (env_k e) (OperatorAddress validator) ! i)))"
    unfolding SimulateMsgUndelegate_def
    by (auto simp add: Let_def outcome_simps NewCoin_def
        dest!: deliverTx_Success RandPositiveInt_bounds
        split: prod.splits option.splits sum.splits if_splits Option.bind_splits)
next
  assume "RandomValidator r (env_k e) = (Some v, r1') \<and>
    Intn r1' (length (GetValidatorDelegations (env_k e) (OperatorAddress v))) = Some (j, r2') \<and>
    TruncateInt (TokensFromShares (env_lib e) v
      (Shares (GetValidatorDelegations (env_k e) (OperatorAddress v) ! j))) \<le> 0"
  then show "SimulateMsgUndelegate e r accs chainID = Some NoOp"
    by (simp add: SimulateMsgUndelegate_def Let_def)
qed

theorem undelegate_amount_bounds_witness:
  "SimulateMsgUndelegate envMain [1, 0, 4] accsMain ''sim'' =
     Some (Success (NewMsgUndelegate ''bob'' ''bob'' (''stake'', 5))) \<and>
   TruncateInt (TokensFromShares (env_lib envMain) valB 500000) = 500000 \<and>
   RandomValidator [3, 0] (env_k envMain) = (Some valD, [0]) \<and>
   Intn [0] (length (GetValidatorDelegations (env_k envMain) (OperatorAddress valD))) = Some (0, []) \<and>
   TruncateInt (TokensFromShares (env_lib envMain) valD
      (Shares (GetValidatorDelegations (env_k envMain) (OperatorAddress valD) ! 0))) \<le> 0 \<and>
   SimulateMsgUndelegate envMain [3, 0] accsMain ''sim'' = Some NoOp \<and>
   (\<exists>validator r1 i r2 unbondAmt.
       RandomValidator [1, 0, 4] (env_k envMain) = (Some validator, r1) \<and>
       Intn r1 (length (GetValidatorDelegations (env_k envMain) (OperatorAddress validator))) = Some (i, r2) \<and>
       NewMsgUndelegate ''bob'' ''bob'' (''stake'', 5) =
         NewMsgUndelegate
           (DelegatorAddress (GetValidatorDelegations (env_k envMain) (OperatorAddress validator) ! i))
           (OperatorAddress validator) (BondDenom (env_k envMain), unbondAmt) \<and>
       0 < unbondAmt \<and>
       unbondAmt \<le> TruncateInt (TokensFromShares (env_lib envMain) validator
         (Shares (GetValidatorDelegations (env_k envMain) (OperatorAddress validator) ! i))))"
proof -
  have run: "SimulateMsgUndelegate envMain [1, 0, 4] accsMain ''sim'' =
     Some (Success (NewMsgUndelegate ''bob'' ''bob'' (''stake'', 5)))"
    by (simp add: gen_defs fix_defs help_defs Let_def)
  have tb: "TruncateInt (TokensFromShares (env_lib envMain) valB 500000) = 500000"
    by (simp add: fix_defs help_defs Let_def)
  have p: "RandomValidator [3, 0] (env_k envMain) = (Some valD, [0]) \<and>
    Intn [0] (length (GetValidatorDelegations (env_k envMain) (OperatorAddress valD))) = Some (0, []) \<and>
    TruncateInt (TokensFromShares (env_lib envMain) valD
      (Shares (GetValidatorDelegations (env_k envMain) (OperatorAddress valD) ! 0))) \<le> 0"
    by (simp add: fix_defs help_defs Let_def)
  from undelegate_amount_bounds [of envMain "[3, 0]" accsMain "''sim''" _ valD "[0]" 0 "[]"] p
  have skip: "SimulateMsgUndelegate envMain [3, 0] accsMain ''sim'' = Some NoOp"
    by blast
  from undelegate_amount_bounds [of envMain "[1, 0, 4]" accsMain "''sim''"
      "NewMsgUndelegate ''bob'' ''bob'' (''stake'', 5)"] run
  have "\<exists>validator r1 i r2 unbondAmt.
       RandomValidator [1, 0, 4] (env_k envMain) = (Some validator, r1) \<and>
       Intn r1 (length (GetValidatorDelegations (env_k envMain) (OperatorAddress validator))) = Some (i, r2) \<and>
       NewMsgUndelegate ''bob'' ''bob'' (''stake'', 5) =
         NewMsgUndelegate
           (DelegatorAddress (GetValidatorDelegations (env_k envMain) (OperatorAddress validator) ! i))
           (OperatorAddress validator) (BondDenom (env_k envMain), unbondAmt) \<and>
       0 < unbondAmt \<and>
       unbondAmt \<le> TruncateInt (TokensFromShares (env_lib envMain) validator
         (Shares (GetValidatorDelegations (env_k envMain) (OperatorAddress validator) ! i)))"
    by blast
  with run tb p skip show ?thesis by blast
qed

section \<open>A principal above the spendable coins\<close>

text \<open>
  Claim C10. In SimulateMsgCreateValidator and SimulateMsgDelegate, when the drawn
  principal subtracted from the account's spendable coins leaves a negative amount
  (\<open>hasNeg\<close>, the second result of \<open>SafeSub\<close>), the generator neither skips nor returns
  an error there: it builds the transaction \<open>tx\<close> that carries the message with the
  drawn principal and nil fees, delivers it with \<open>app.Deliver\<close>, and its result is the
  success carrying the message when the delivery is OK and the error carrying the
  delivery's log otherwise.
\<close>

theorem deficit_means_nil_fees:
  "(RandomAcc r accs = Some (simAccount, r1) \<and>
    GetValidator (env_k e) (Address simAccount) = None \<and>
    GetAccount (env_ak e) (Address simAccount) = Some account \<and>
    0 < AmountOf (GetCoins account) (BondDenom (env_k e)) \<and>
    RandPositiveInt r1 (AmountOf (GetCoins account) (BondDenom (env_k e))) = (Inr amount, r2) \<and>
    snd (SafeSub (SpendableCoins account (BlockTime (env_ctx e)))
           [NewCoin (BondDenom (env_k e)) amount]) \<longrightarrow>
    (\<exists>description commission tx.
       tx = \<lparr>Msgs = [NewMsgCreateValidator (Address simAccount) (PubKey simAccount)
                        (NewCoin (BondDenom (env_k e)) amount) description commission 1],
             Fee = [], ChainID = chainID, AccNums = [GetAccountNumber account],
             Seqs = [GetSequence account], Signer = PrivKey simAccount\<rparr> \<and>
       SimulateMsgCreateValidator e r accs chainID =
         Some (if IsOK (Deliver (env_app e) tx)
               then Success (NewMsgCreateValidator (Address simAccount) (PubKey simAccount)
                       (NewCoin (BondDenom (env_k e)) amount) description commission 1)
               else Error (DeliverFailed (Log (Deliver (env_app e) tx)))))) \<and>
   (GetAllValidators (env_k e) \<noteq> [] \<and>
    RandomAcc r accs = Some (delegator, q1) \<and>
    RandomValidator q1 (env_k e) = (Some val, q2) \<and>
    \<not> InvalidExRate (env_lib e) val \<and>
    GetAccount (env_ak e) (Address delegator) = Some holder \<and>
    0 < AmountOf (GetCoins holder) (BondDenom (env_k e)) \<and>
    RandPositiveInt q2 (AmountOf (GetCoins holder) (BondDenom (env_k e))) = (Inr bond, q3) \<and>
    snd (SafeSub (SpendableCoins holder (BlockTime (env_ctx e)))
           [NewCoin (BondDenom (env_k e)) bond]) \<longrightarrow>
    (\<exists>tx.
       tx = \<lparr>Msgs = [NewMsgDelegate (Address delegator) (OperatorAddress val)
                        (NewCoin (BondDenom (env_k e)) bond)],
             Fee = [], ChainID = chainID, AccNums = [GetAccountNumber holder],
             Seqs = [GetSequence holder], Signer = PrivKey delegator\<rparr> \<and>
       SimulateMsgDelegate e r accs chainID =
         Some (if IsOK (Deliver (env_app e) tx)
               then Success (NewMsgDelegate (Address delegator) (OperatorAddress val)
                       (NewCoin (BondDenom (env_k e)) bond))
               else Error (DeliverFailed (Log (Deliver (env_app e) tx))))))"
proof (intro conjI impI)
  assume a: "RandomAcc r accs = Some (simAccount, r1) \<and>
    GetValidator (env_k e) (Address simAccount) = None \<and>
    GetAccount (env_ak e) (Address simAccount) = Some account \<and>
    0 < AmountOf (GetCoins account) (BondDenom (env_k e)) \<and>
    RandPositiveInt r1 (AmountOf (GetCoins account) (BondDenom (env_k e))) = (Inr amount, r2) \<and>
    snd (SafeSub (SpendableCoins account (BlockTime (env_ctx e)))
           [NewCoin (BondDenom (env_k e)) amount])"
  then have fees: "feesAfter (env_lib e) r2 (SpendableCoins account (BlockTime (env_ctx e)))
                     (NewCoin (BondDenom (env_k e)) amount) = (Inr [], r2)"
    by (simp add: feesAfter_deficit)
  obtain description r4 where d: "randDescription (env_lib e) r2 = (description, r4)"
    by (cases "randDescription (env_lib e) r2")
  obtain n r5 where n: "RandIntBetween (env_lib e) r4 0 100 = (n, r5)"
    by (cases "RandIntBetween (env_lib e) r4 0 100")
  obtain rate r6 where r6: "RandomDecAmount (env_lib e) r5 (NewDecWithPrec n 2) = (rate, r6)"
    by (cases "RandomDecAmount (env_lib e) r5 (NewDecWithPrec n 2)")
  obtain change r7 where r7: "RandomDecAmount (env_lib e) r6 (NewDecWithPrec n 2) = (change, r7)"
    by (cases "RandomDecAmount (env_lib e) r6 (NewDecWithPrec n 2)")
  let ?msg = "NewMsgCreateValidator (Address simAccount) (PubKey simAccount)
                (NewCoin (BondDenom (env_k e)) amount) description
                (NewCommissionRates rate (NewDecWithPrec n 2) change) 1"
  let ?tx = "\<lparr>Msgs = [?msg], Fee = [], ChainID = chainID, AccNums = [GetAccountNumber account],
               Seqs = [GetSequence account], Signer = PrivKey simAccount\<rparr>"
  from a fees d n r6 r7
  have "SimulateMsgCreateValidator e r accs chainID =
          Some (if IsOK (Deliver (env_app e) ?tx) then Success ?msg
                else Error (DeliverFailed (Log (Deliver (env_app e) ?tx))))"
    by (simp add: SimulateMsgCreateValidator_def Let_def deliverTx_def GenTx_def)
  then show "\<exists>description commission tx.
       tx = \<lparr>Msgs = [NewMsgCreateValidator (Address simAccount) (PubKey simAccount)
                        (NewCoin (BondDenom (env_k e)) amount) description commission 1],
             Fee = [], ChainID = chainID, AccNums = [GetAccountNumber account],
             Seqs = [GetSequence account], Signer = PrivKey simAccount\<rparr> \<and>
       SimulateMsgCreateValidator e r accs chainID =
         Some (if IsOK (Deliver (env_app e) tx)
               then Success (NewMsgCreateValidator (Address simAccount) (PubKey simAccount)
                       (NewCoin (BondDenom (env_k e)) amount) description commission 1)
               else Error (DeliverFailed (Log (Deliver (env_app e) tx))))"
    by blast
next
  assume a: "GetAllValidators (env_k e) \<noteq> [] \<and>
    RandomAcc r accs = Some (delegator, q1) \<and>
    RandomValidator q1 (env_k e) = (Some val, q2) \<and>
    \<not> InvalidExRate (env_lib e) val \<and>
    GetAccount (env_ak e) (Address delegator) = Some holder \<and>
    0 < AmountOf (GetCoins holder) (BondDenom (env_k e)) \<and>
    RandPositiveInt q2 (AmountOf (GetCoins holder) (BondDenom (env_k e))) = (Inr bond, q3) \<and>
    snd (SafeSub (SpendableCoins holder (BlockTime (env_ctx e)))
           [NewCoin (BondDenom (env_k e)) bond])"
  then have fees: "feesAfter (env_lib e) q3 (SpendableCoins holder (BlockTime (env_ctx e)))
                     (NewCoin (BondDenom (env_k e)) bond) = (Inr [], q3)"
    by (simp add: feesAfter_deficit)
  let ?msg = "NewMsgDelegate (Address delegator) (OperatorAddress val)
                (NewCoin (BondDenom (env_k e)) bond)"
  let ?tx = "\<lparr>Msgs = [?msg], Fee = [], ChainID = chainID, AccNums = [GetAccountNumber holder],
               Seqs = [GetSequence holder], Signer = PrivKey delegator\<rparr>"
  from a fees
  have "SimulateMsgDelegate e r accs chainID =
          Some (if IsOK (Deliver (env_app e) ?tx) then Success ?msg
                else Error (DeliverFailed (Log (Deliver (env_app e) ?tx))))"
    by (simp add: SimulateMsgDelegate_def Let_def deliverTx_def GenTx_def)
  then show "\<exists>tx.
       tx = \<lparr>Msgs = [NewMsgDelegate (Address delegator) (OperatorAddress val)
                        (NewCoin (BondDenom (env_k e)) bond)],
             Fee = [], ChainID = chainID, AccNums = [GetAccountNumber holder],
             Seqs = [GetSequence holder], Signer = PrivKey delegator\<rparr> \<and>
       SimulateMsgDelegate e r accs chainID =
         Some (if IsOK (Deliver (env_app e) tx)
               then Success (NewMsgDelegate (Address delegator) (OperatorAddress val)
                       (NewCoin (BondDenom (env_k e)) bond))
               else Error (DeliverFailed (Log (Deliver (env_app e) tx))))"
    by blast
qed

text \<open>
  The witness runs where the application rejects a transaction without fees. The draw
  6 gives \<open>carol\<close> the principal 7 against 3 spendable coins: both generators deliver
  with nil fees and return the delivery's error. With the draw 1 the principal is 2, a
  fee is drawn from the remaining coin and the delivery is accepted.
\<close>

theorem deficit_means_nil_fees_witness:
  "RandomAcc [2, 6, 6] accsMain = Some (accsMain ! 2, [6, 6]) \<and>
   GetValidator (env_k envMinFee) (Address (accsMain ! 2)) = None \<and>
   AmountOf (GetCoins (the (GetAccount (env_ak envMinFee) (Address (accsMain ! 2)))))
     (BondDenom (env_k envMinFee)) = 10 \<and>
   RandPositiveInt [6, 6] 10 = (Inr 7, [6]) \<and>
   snd (SafeSub (SpendableCoins (the (GetAccount (env_ak envMinFee) (Address (accsMain ! 2))))
          (BlockTime (env_ctx envMinFee))) [NewCoin (BondDenom (env_k envMinFee)) 7]) \<and>
   RandomValidator [6, 6] (env_k envMinFee) = (Some valC, [6]) \<and>
   \<not> InvalidExRate (env_lib envMinFee) valC \<and>
   RandPositiveInt [6] 10 = (Inr 7, []) \<and>
   SimulateMsgCreateValidator envMinFee [2, 6, 6] accsMain ''sim'' =
     Some (Error (DeliverFailed ''insufficient fees'')) \<and>
   SimulateMsgDelegate envMinFee [2, 6, 6] accsMain ''sim'' =
     Some (Error (DeliverFailed ''insufficient fees'')) \<and>
   SimulateMsgDelegate envMinFee [2, 1, 1] accsMain ''sim'' =
     Some (Success (NewMsgDelegate ''carol'' ''bob'' (''stake'', 2)))"
proof -
  let ?carol = "accsMain ! 2"
  let ?acct = "\<lparr>GetCoins = [(''stake'', 10)], SpendableCoins = (\<lambda>t. [(''stake'', 3)]),
                GetAccountNumber = 2, GetSequence = 0\<rparr>"
  have shown: "RandomAcc [2, 6, 6] accsMain = Some (?carol, [6, 6]) \<and>
    GetValidator (env_k envMinFee) (Address ?carol) = None \<and>
    AmountOf (GetCoins (the (GetAccount (env_ak envMinFee) (Address ?carol))))
      (BondDenom (env_k envMinFee)) = 10 \<and>
    RandPositiveInt [6, 6] 10 = (Inr 7, [6]) \<and>
    snd (SafeSub (SpendableCoins (the (GetAccount (env_ak envMinFee) (Address ?carol)))
          (BlockTime (env_ctx envMinFee))) [NewCoin (BondDenom (env_k envMinFee)) 7]) \<and>
    RandomValidator [6, 6] (env_k envMinFee) = (Some valC, [6]) \<and>
    \<not> InvalidExRate (env_lib envMinFee) valC \<and>
    RandPositiveInt [6] 10 = (Inr 7, [])"
    by (simp add: fix_defs help_defs)
  have create: "RandomAcc [2, 6, 6] accsMain = Some (?carol, [6, 6]) \<and>
    GetValidator (env_k envMinFee) (Address ?carol) = None \<and>
    GetAccount (env_ak envMinFee) (Address ?carol) = Some ?acct \<and>
    0 < AmountOf (GetCoins ?acct) (BondDenom (env_k envMinFee)) \<and>
    RandPositiveInt [6, 6] (AmountOf (GetCoins ?acct) (BondDenom (env_k envMinFee))) = (Inr 7, [6]) \<and>
    snd (SafeSub (SpendableCoins ?acct (BlockTime (env_ctx envMinFee)))
           [NewCoin (BondDenom (env_k envMinFee)) 7])"
    by (simp add: fix_defs help_defs)
  have delegate: "GetAllValidators (env_k envMinFee) \<noteq> [] \<and>
    RandomAcc [2, 6, 6] accsMain = Some (?carol, [6, 6]) \<and>
    RandomValidator [6, 6] (env_k envMinFee) = (Some valC, [6]) \<and>
    \<not> InvalidExRate (env_lib envMinFee) valC \<and>
    GetAccount (env_ak envMinFee) (Address ?carol) = Some ?acct \<and>
    0 < AmountOf (GetCoins ?acct) (BondDenom (env_k envMinFee)) \<and>
    RandPositiveInt [6] (AmountOf (GetCoins ?acct) (BondDenom (env_k envMinFee))) = (Inr 7, []) \<and>
    snd (SafeSub (SpendableCoins ?acct (BlockTime (env_ctx envMinFee)))
           [NewCoin (BondDenom (env_k envMinFee)) 7])"
    by (simp add: fix_defs help_defs)
  have rejects: "\<And>tx. Fee tx = [] \<Longrightarrow>
      Deliver (env_app envMinFee) tx = \<lparr>IsOK = False, Log = ''insufficient fees''\<rparr>"
    by (simp add: envMinFee_def)
  note inst = deficit_means_nil_fees [of "[2, 6, 6]" accsMain ?carol "[6, 6]" envMinFee ?acct 7 "[6]"
      "''sim''" ?carol "[6, 6]" valC "[6]" ?acct 7 "[]"]
  from inst [THEN conjunct1, THEN mp, OF create]
  obtain description commission tx where
    tx: "tx = \<lparr>Msgs = [NewMsgCreateValidator (Address ?carol) (PubKey ?carol)
                        (NewCoin (BondDenom (env_k envMinFee)) 7) description commission 1],
             Fee = [], ChainID = ''sim'', AccNums = [GetAccountNumber ?acct],
             Seqs = [GetSequence ?acct], Signer = PrivKey ?carol\<rparr>" and
    res: "SimulateMsgCreateValidator envMinFee [2, 6, 6] accsMain ''sim'' =
       Some (if IsOK (Deliver (env_app envMinFee) tx)
             then Success (NewMsgCreateValidator (Address ?carol) (PubKey ?carol)
                     (NewCoin (BondDenom (env_k envMinFee)) 7) description commission 1)
             else Error (DeliverFailed (Log (Deliver (env_app envMinFee) tx))))"
    by blast
  from tx have "Fee tx = []" by simp
  with res rejects [of tx]
  have c: "SimulateMsgCreateValidator envMinFee [2, 6, 6] accsMain ''sim'' =
     Some (Error (DeliverFailed ''insufficient fees''))"
    by simp
  from inst [THEN conjunct2, THEN mp, OF delegate]
  obtain tx' where
    tx': "tx' = \<lparr>Msgs = [NewMsgDelegate (Address ?carol) (OperatorAddress valC)
                        (NewCoin (BondDenom (env_k envMinFee)) 7)],
             Fee = [], ChainID = ''sim'', AccNums = [GetAccountNumber ?acct],
             Seqs = [GetSequence ?acct], Signer = PrivKey ?carol\<rparr>" and
    res': "SimulateMsgDelegate envMinFee [2, 6, 6] accsMain ''sim'' =
       Some (if IsOK (Deliver (env_app envMinFee) tx')
             then Success (NewMsgDelegate (Address ?carol) (OperatorAddress valC)
                     (NewCoin (BondDenom (env_k envMinFee)) 7))
             else Error (DeliverFailed (Log (Deliver (env_app envMinFee) tx'))))"
    by blast
  from tx' have "Fee tx' = []" by simp
  with res' rejects [of tx']
  have d: "SimulateMsgDelegate envMinFee [2, 6, 6] accsMain ''sim'' =
     Some (Error (DeliverFailed ''insufficient fees''))"
    by simp
  have paid: "SimulateMsgDelegate envMinFee [2, 1, 1] accsMain ''sim'' =
     Some (Success (NewMsgDelegate ''carol'' ''bob'' (''stake'', 2)))"
    by (simp add: gen_defs fix_defs help_defs Let_def)
  from shown c d paid show ?thesis by blast
qed

end
